theory Spec2Isabelle
  imports Complex_Main
begin

section \<open>Symbolic graph values\<close>

text \<open>
  The patterns of \<^verbatim>\<open>concarne/patterns\<close> build symbolic expressions of a graph
  library; they compute no numbers themselves. A symbolic variable and a shared
  parameter are identified by their names, a layer object by its address in the heap.
\<close>

type_synonym var = string
type_synonym param = string
type_synonym layer_id = nat

text \<open>
  The loss functions a pattern can call: the two objectives of the graph library that
  \<^verbatim>\<open>pairwise.py\<close> names, and a callable supplied by the caller.
\<close>

datatype objective = categorical_crossentropy | squared_error | user_objective string

text \<open>
  The expressions the source builds: \<^verbatim>\<open>l.get_output_for(e)\<close> is \<open>LayerOut l e\<close>,
  \<^verbatim>\<open>a - b\<close>, \<^verbatim>\<open>w * a\<close> and \<^verbatim>\<open>a + b\<close> are \<open>Sub\<close>, \<open>Mul\<close> and \<open>Add\<close>,
  \<^verbatim>\<open>fn(output, target)\<close> is \<open>Loss fn output target\<close> and \<^verbatim>\<open>e.mean()\<close> is \<open>Mean e\<close>.
  A Python float weight is taken as a real number: the source only compares it with
  zero and places it in a product.
\<close>

datatype expr =
    Var var
  | Const real
  | LayerOut layer_id expr
  | Sub expr expr
  | Mul expr expr
  | Add expr expr
  | Loss objective expr expr
  | Mean expr

text \<open>
  The value of an expression, for stating what a built graph computes. A tensor is a
  family of reals indexed by position; arithmetic is elementwise and a constant is
  broadcast. What a layer, an objective and the mean compute belongs to the graph
  library and is a parameter of the evaluation.
\<close>

type_synonym tensor = "nat \<Rightarrow> real"

record interp =
  var_val :: "var \<Rightarrow> tensor"
  layer_fwd :: "layer_id \<Rightarrow> tensor \<Rightarrow> tensor"
  objective_val :: "objective \<Rightarrow> tensor \<Rightarrow> tensor \<Rightarrow> tensor"
  mean_val :: "tensor \<Rightarrow> tensor"

fun denote :: "interp \<Rightarrow> expr \<Rightarrow> tensor" where
  "denote I (Var v) = var_val I v"
| "denote I (Const c) = (\<lambda>i. c)"
| "denote I (LayerOut l e) = layer_fwd I l (denote I e)"
| "denote I (Sub a b) = (\<lambda>i. denote I a i - denote I b i)"
| "denote I (Mul a b) = (\<lambda>i. denote I a i * denote I b i)"
| "denote I (Add a b) = (\<lambda>i. denote I a i + denote I b i)"
| "denote I (Loss f a b) = objective_val I f (denote I a) (denote I b)"
| "denote I (Mean e) = mean_val I (denote I e)"

section \<open>Errors\<close>

text \<open>
  The exceptions the two modules can raise. \<open>GraphError\<close> stands for whatever the graph
  library raises when a layer is applied to Python's \<^verbatim>\<open>None\<close>.
\<close>

datatype error =
    AttributeError
  | TypeError
  | AssertionError
  | NotImplementedError
  | GraphError

text \<open>The value a returned graph computes; \<open>None\<close> when the call raised.\<close>

definition graph_value :: "interp \<Rightarrow> error + expr \<Rightarrow> tensor option" where
  "graph_value I r = (case r of Inl e \<Rightarrow> None | Inr x \<Rightarrow> Some (denote I x))"

section \<open>Layers and the heap\<close>

text \<open>
  A layer of the graph library, as far as the patterns read it: \<^verbatim>\<open>l.params\<close>, an
  ordered dictionary from a parameter to its set of tags; \<^verbatim>\<open>l.input_layer\<close>, where
  \<open>None\<close> covers both a missing attribute (an input layer has none) and the value
  \<^verbatim>\<open>None\<close>, since reading \<^verbatim>\<open>phi.input_layer.input_var\<close> raises AttributeError in
  both cases; \<^verbatim>\<open>l.input_var\<close>, which only an input layer has; and the shape an
  input layer was built with.
\<close>

datatype shape = IntShape int | TupleShape "int option list"

record layer =
  params :: "(param \<times> string set) list"
  input_layer_attr :: "layer_id option"
  input_var_attr :: "var option"
  shape_attr :: "shape option"

text \<open>
  Layers are shared mutable objects: the heap maps an address to the layer stored
  there, and \<open>next_id\<close> is the first address not yet allocated.
\<close>

record heap =
  layer_at :: "layer_id \<Rightarrow> layer"
  next_id :: layer_id

section \<open>The pattern object\<close>

datatype pattern_class =
    Pattern
  | PairwiseTransformationPattern
  | PairwisePredictTransformationPattern

text \<open>
  The attributes of a pattern object. \<open>cls\<close> is the class of the object, which decides
  the overridden properties and methods. The last three fields exist on the pairwise
  classes; \<open>context_shape\<close> is \<open>None\<close> while the attribute does not exist.
\<close>

record pattern =
  cls :: pattern_class
  phi :: layer_id
  psi :: layer_id
  beta :: "layer_id option"
  input_layer :: layer_id
  input_var :: "var option"
  target_var :: "var option"
  context_var :: "var option"
  target_loss :: "expr option"
  target_loss_fn :: "objective option"
  context_loss :: "expr option"
  context_loss_fn :: "objective option"
  name :: "string option"
  context_input_layer :: "layer_id option"
  context_transform_var :: "var option"
  context_shape :: "shape option"

section \<open>Pattern.training\_loss\<close>

text \<open>
  \<^verbatim>\<open>weight * loss\<close> where the weight is a float: a product node when the loss is an
  expression, TypeError when the slot holds \<^verbatim>\<open>None\<close>.
\<close>

definition py_mul :: "real \<Rightarrow> expr option \<Rightarrow> error + expr" where
  "py_mul w x = (case x of None \<Rightarrow> Inl TypeError | Some e \<Rightarrow> Inr (Mul (Const w) e))"

definition training_loss :: "pattern \<Rightarrow> real \<Rightarrow> real \<Rightarrow> error + expr" where
  "training_loss self target_weight context_weight =
     (if target_weight = 0 then py_mul context_weight (context_loss self)
      else if context_weight = 0 then py_mul target_weight (target_loss self)
      else (case py_mul target_weight (target_loss self) of
              Inl e \<Rightarrow> Inl e
            | Inr a \<Rightarrow>
                (case py_mul context_weight (context_loss self) of
                   Inl e \<Rightarrow> Inl e
                 | Inr b \<Rightarrow> Inr (Add a b))))"

section \<open>Pattern.\_\_init\_\_ and the tagging of parameters\<close>

text \<open>A loss argument of the constructor is either a ready expression or a callable.\<close>

datatype loss_arg = LossExpr expr | LossFn objective

text \<open>
  Modelled from the spec: \<^verbatim>\<open>isfunction\<close> of \<^verbatim>\<open>concarne/utils.py\<close> is not among the
  source files; the spec says a loss argument that "is a callable rather than a ready
  expression" is stored as a deferred loss function.
\<close>

definition isfunction :: "loss_arg option \<Rightarrow> bool" where
  "isfunction x = (case x of Some (LossFn f) \<Rightarrow> True | _ \<Rightarrow> False)"

text \<open>
  Lines 51 to 63 of \<^verbatim>\<open>base.py\<close> for one loss: the argument goes into the expression
  slot and the function slot is \<^verbatim>\<open>None\<close>; a callable then moves to the function slot
  and the expression slot is cleared. The result is (expression slot, function slot).
\<close>

definition split_loss :: "loss_arg option \<Rightarrow> expr option \<times> objective option" where
  "split_loss x =
     (if isfunction x
      then (None, (case x of Some (LossFn f) \<Rightarrow> Some f | _ \<Rightarrow> None))
      else ((case x of Some (LossExpr e) \<Rightarrow> Some e | _ \<Rightarrow> None), None))"

text \<open>The keyword arguments of \<^verbatim>\<open>Pattern.__init__\<close>, with their defaults \<open>None\<close>.\<close>

record pattern_args =
  arg_phi :: layer_id
  arg_psi :: layer_id
  arg_beta :: "layer_id option"
  arg_target_var :: "var option"
  arg_context_var :: "var option"
  arg_target_loss :: "loss_arg option"
  arg_context_loss :: "loss_arg option"
  arg_name :: "string option"

text \<open>
  \<^verbatim>\<open>lasagne.layers.get_all_layers\<close> belongs to the graph library: it is a parameter of
  the model, a function from the heap and a network (or \<^verbatim>\<open>None\<close>) to the list of
  layers it collects.
\<close>

type_synonym all_layers = "heap \<Rightarrow> layer_id option \<Rightarrow> layer_id list"

text \<open>
  The body of the inner loop of \<^verbatim>\<open>_tag_function_parameters\<close> for one entry of
  \<^verbatim>\<open>l.params\<close>: skip it when the role is not phi and it carries the tag phi, else add
  the role to its tag set. The loop visits every key of the dictionary once.
\<close>

definition tag_entry :: "string \<Rightarrow> param \<times> string set \<Rightarrow> param \<times> string set" where
  "tag_entry fun_name e =
     (if fun_name \<noteq> ''phi'' \<and> ''phi'' \<in> snd e then e
      else (fst e, insert fun_name (snd e)))"

definition tag_layer :: "string \<Rightarrow> heap \<Rightarrow> layer_id \<Rightarrow> heap" where
  "tag_layer fun_name h l =
     h\<lparr>layer_at := (layer_at h)
          (l := (layer_at h l)\<lparr>params := map (tag_entry fun_name) (params (layer_at h l))\<rparr>)\<rparr>"

definition tag_function_parameters ::
  "all_layers \<Rightarrow> heap \<Rightarrow> layer_id option \<Rightarrow> string \<Rightarrow> heap" where
  "tag_function_parameters get_all_layers h fn fun_name =
     foldl (tag_layer fun_name) h (get_all_layers h fn)"

text \<open>
  The constructor of the base class, for an object of class \<open>c\<close>. It fails with
  AttributeError when \<^verbatim>\<open>phi.input_layer.input_var\<close> cannot be read. The fields of the
  pairwise classes start as \<open>None\<close>: \<^verbatim>\<open>context_input_layer\<close> is set to \<^verbatim>\<open>None\<close> before
  the base constructor runs, the other two do not exist yet.
\<close>

definition Pattern_init ::
  "all_layers \<Rightarrow> pattern_class \<Rightarrow> pattern_args \<Rightarrow> heap \<Rightarrow> error + pattern \<times> heap" where
  "Pattern_init get_all_layers c a h =
     (case input_layer_attr (layer_at h (arg_phi a)) of
        None \<Rightarrow> Inl AttributeError
      | Some il \<Rightarrow>
          (case input_var_attr (layer_at h il) of
             None \<Rightarrow> Inl AttributeError
           | Some v \<Rightarrow>
               Inr (\<lparr>cls = c, phi = arg_phi a, psi = arg_psi a, beta = arg_beta a,
                     input_layer = il, input_var = Some v,
                     target_var = arg_target_var a, context_var = arg_context_var a,
                     target_loss = fst (split_loss (arg_target_loss a)),
                     target_loss_fn = snd (split_loss (arg_target_loss a)),
                     context_loss = fst (split_loss (arg_context_loss a)),
                     context_loss_fn = snd (split_loss (arg_context_loss a)),
                     name = arg_name a, context_input_layer = None,
                     context_transform_var = None, context_shape = None\<rparr>,
                    foldl (\<lambda>h' fn. tag_function_parameters get_all_layers h' (fst fn) (snd fn))
                      h [(Some (arg_phi a), ''phi''), (Some (arg_psi a), ''psi''),
                         (arg_beta a, ''beta'')])))"

section \<open>Pattern.get\_params\<close>

text \<open>
  Modelled from the spec: \<^verbatim>\<open>Layer.get_params(**tags)\<close> belongs to the graph library;
  the spec says it lists the parameters of the layer, where "a parameter matches if
  every requested tag name is present/absent as specified".
\<close>

definition tag_match :: "(string \<times> bool) list \<Rightarrow> string set \<Rightarrow> bool" where
  "tag_match tags ts = list_all (\<lambda>tv. (fst tv \<in> ts) = snd tv) tags"

definition layer_get_params :: "heap \<Rightarrow> layer_id \<Rightarrow> (string \<times> bool) list \<Rightarrow> param list" where
  "layer_get_params h l tags =
     map fst (filter (\<lambda>e. tag_match tags (snd e)) (params (layer_at h l)))"

definition get_params :: "heap \<Rightarrow> pattern \<Rightarrow> (string \<times> bool) list \<Rightarrow> param list" where
  "get_params h self tags =
     (let ps = layer_get_params h (psi self) tags;
          ps = (case beta self of
                  None \<Rightarrow> ps
                | Some b \<Rightarrow> ps @ layer_get_params h b tags)
      in ps @ layer_get_params h (phi self) tags)"


section \<open>Objectives and outputs\<close>

text \<open>
  The two properties of the base class execute \<^verbatim>\<open>raise NotImplemented()\<close>: the
  constant \<^verbatim>\<open>NotImplemented\<close> is not callable, so the call raises TypeError before
  anything is raised by the statement itself. The pairwise classes override them.
\<close>

definition default_target_objective :: "pattern \<Rightarrow> error + objective" where
  "default_target_objective self =
     (case cls self of
        Pattern \<Rightarrow> Inl TypeError
      | PairwiseTransformationPattern \<Rightarrow> Inr categorical_crossentropy
      | PairwisePredictTransformationPattern \<Rightarrow> Inr categorical_crossentropy)"

definition default_context_objective :: "pattern \<Rightarrow> error + objective" where
  "default_context_objective self =
     (case cls self of
        Pattern \<Rightarrow> Inl TypeError
      | PairwiseTransformationPattern \<Rightarrow> Inr squared_error
      | PairwisePredictTransformationPattern \<Rightarrow> Inr squared_error)"

definition get_psi_output_for :: "pattern \<Rightarrow> expr \<Rightarrow> expr" where
  "get_psi_output_for self inp = LayerOut (psi self) (LayerOut (phi self) inp)"

text \<open>
  \<^verbatim>\<open>get_beta_output_for\<close> with its positional arguments. The base class takes one
  input and raises NotImplementedError; the pairwise classes take two, and only the
  predicting pattern implements it. A call with another number of positional arguments
  is a TypeError of Python.
\<close>

definition get_beta_output_for :: "pattern \<Rightarrow> expr list \<Rightarrow> error + expr" where
  "get_beta_output_for self inputs =
     (case cls self of
        Pattern \<Rightarrow>
          (case inputs of [inp] \<Rightarrow> Inl NotImplementedError | _ \<Rightarrow> Inl TypeError)
      | PairwiseTransformationPattern \<Rightarrow>
          (case inputs of [input_i, input_j] \<Rightarrow> Inl NotImplementedError | _ \<Rightarrow> Inl TypeError)
      | PairwisePredictTransformationPattern \<Rightarrow>
          (case inputs of
             [input_i, input_j] \<Rightarrow>
               (let phi_i_output = LayerOut (phi self) input_i;
                    phi_j_output = LayerOut (phi self) input_j;
                    diff = Sub phi_i_output phi_j_output
                in (case beta self of
                      Some b \<Rightarrow> Inr (LayerOut b diff)
                    | None \<Rightarrow> Inr diff))
           | _ \<Rightarrow> Inl TypeError))"

section \<open>Building the losses\<close>

text \<open>
  \<^verbatim>\<open>_create_target_objective(output=None, target=None)\<close>. The default output is
  computed first, from \<^verbatim>\<open>input_var\<close>, whether or not a loss is built afterwards; a
  layer applied to \<^verbatim>\<open>None\<close> is an error of the graph library. The two assertions
  and the choice of the loss function follow, in the order of the source.
\<close>

definition create_target_objective ::
  "pattern \<Rightarrow> expr option \<Rightarrow> expr option \<Rightarrow> error + pattern" where
  "create_target_objective self output target =
     (case (case output of
              None \<Rightarrow>
                (case input_var self of
                   None \<Rightarrow> Inl GraphError
                 | Some v \<Rightarrow> Inr (get_psi_output_for self (Var v)))
            | Some out \<Rightarrow> Inr out) of
        Inl e \<Rightarrow> Inl e
      | Inr out \<Rightarrow>
          if target_loss self = None then
            (case input_var self of
               None \<Rightarrow> Inl AssertionError
             | Some v \<Rightarrow>
                 (case target_var self of
                    None \<Rightarrow> Inl AssertionError
                  | Some tv \<Rightarrow>
                      (case (case target_loss_fn self of
                               None \<Rightarrow> default_target_objective self
                             | Some f \<Rightarrow> Inr f) of
                         Inl e \<Rightarrow> Inl e
                       | Inr fn \<Rightarrow>
                           Inr (self\<lparr>target_loss :=
                                  Some (Mean (Loss fn out
                                    (case target of None \<Rightarrow> Var tv | Some t \<Rightarrow> t)))\<rparr>))))
          else Inr self)"

text \<open>
  \<^verbatim>\<open>_create_context_objective()\<close> of the pairwise classes. The loss function is
  chosen, then its two arguments are evaluated; a loss function applied to \<^verbatim>\<open>None\<close>
  is an error of the graph library.
\<close>

definition create_context_objective :: "pattern \<Rightarrow> error + pattern" where
  "create_context_objective self =
     (if context_loss self = None then
        (case input_var self of
           None \<Rightarrow> Inl AssertionError
         | Some v \<Rightarrow>
             (case context_var self of
                None \<Rightarrow> Inl AssertionError
              | Some cv \<Rightarrow>
                  (case (case context_loss_fn self of
                           None \<Rightarrow> default_context_objective self
                         | Some f \<Rightarrow> Inr f) of
                     Inl e \<Rightarrow> Inl e
                   | Inr fn \<Rightarrow>
                       (case get_beta_output_for self [Var v, Var cv] of
                          Inl e \<Rightarrow> Inl e
                        | Inr b \<Rightarrow>
                            (case context_transform_var self of
                               None \<Rightarrow> Inl GraphError
                             | Some c \<Rightarrow>
                                 Inr (self\<lparr>context_loss :=
                                        Some (Mean (Loss fn b (Var c)))\<rparr>))))))
      else Inr self)"

section \<open>The constructors of the pairwise patterns\<close>

text \<open>
  \<^verbatim>\<open>PairwiseTransformationPattern.__init__(context_transform_var=None, **kwargs)\<close> for
  an object of class \<open>c\<close>. An exception leaves the constructor with the object as it
  is at that moment: the failure carries the error and that state, or \<open>None\<close> for the
  state when the base constructor itself failed.
\<close>

definition PairwiseTransformationPattern_init ::
  "all_layers \<Rightarrow> pattern_class \<Rightarrow> var option \<Rightarrow> pattern_args \<Rightarrow> heap
     \<Rightarrow> (error \<times> (pattern \<times> heap) option) + pattern \<times> heap" where
  "PairwiseTransformationPattern_init get_all_layers c ctv a h =
     (case Pattern_init get_all_layers c a h of
        Inl e \<Rightarrow> Inl (e, None)
      | Inr r \<Rightarrow>
          (let self = (fst r)\<lparr>context_transform_var := ctv\<rparr>; h' = snd r in
           if context_transform_var self = None
           then Inl (AssertionError, Some (self, h'))
           else
             (case create_target_objective self None None of
                Inl e \<Rightarrow> Inl (e, Some (self, h'))
              | Inr self1 \<Rightarrow>
                  (case create_context_objective self1 of
                     Inl e \<Rightarrow> Inl (e, Some (self1, h'))
                   | Inr self2 \<Rightarrow> Inr (self2, h')))))"

definition PairwisePredictTransformationPattern_init ::
  "all_layers \<Rightarrow> var option \<Rightarrow> pattern_args \<Rightarrow> heap
     \<Rightarrow> (error \<times> (pattern \<times> heap) option) + pattern \<times> heap" where
  "PairwisePredictTransformationPattern_init get_all_layers ctv a h =
     PairwiseTransformationPattern_init get_all_layers
       PairwisePredictTransformationPattern ctv a h"

section \<open>PairwisePredictTransformationPattern.default\_beta\_input\<close>

text \<open>
  Modelled from the spec: \<^verbatim>\<open>lasagne.layers.InputLayer(shape, input_var)\<close> belongs to
  the graph library; the spec calls it an input-layer placeholder of the given shape
  "bound to \<^verbatim>\<open>context_var\<close>". It is a new object: it takes the next free address.
\<close>

definition new_input_layer :: "heap \<Rightarrow> shape \<Rightarrow> var option \<Rightarrow> layer_id \<times> heap" where
  "new_input_layer h sh v =
     (next_id h,
      h\<lparr>layer_at := (layer_at h)
           (next_id h := \<lparr>params = [], input_layer_attr = None, input_var_attr = v,
                          shape_attr = Some sh\<rparr>),
        next_id := Suc (next_id h)\<rparr>)"

text \<open>
  The property reads \<^verbatim>\<open>self.context_shape\<close> when no input layer is cached. No
  statement of the three classes assigns that attribute: the read raises
  AttributeError unless the attribute was set on the object from outside.
\<close>

definition default_beta_input :: "pattern \<Rightarrow> heap \<Rightarrow> error + layer_id \<times> pattern \<times> heap" where
  "default_beta_input self h =
     (case context_input_layer self of
        Some l \<Rightarrow> Inr (l, self, h)
      | None \<Rightarrow>
          (case context_shape self of
             None \<Rightarrow> Inl AttributeError
           | Some sh \<Rightarrow>
               (let context_dim = (case sh of
                                     IntShape d \<Rightarrow> TupleShape [None, Some d]
                                   | TupleShape ds \<Rightarrow> sh);
                    r = new_input_layer h context_dim (context_var self)
                in Inr (fst r, self\<lparr>context_input_layer := Some (fst r)\<rparr>, snd r))))"

section \<open>Concrete objects\<close>

text \<open>
  A small network: an input layer at address 0, phi at 1 on top of it, psi at 2 on top
  of phi and a beta network at 3 on top of phi, so that the layers of phi are shared
  with psi and with beta.
\<close>

definition demo_layer :: "(param \<times> string set) list \<Rightarrow> layer_id option \<Rightarrow> var option \<Rightarrow> layer" where
  "demo_layer ps il v =
     \<lparr>params = ps, input_layer_attr = il, input_var_attr = v, shape_attr = None\<rparr>"

definition demo_heap :: heap where
  "demo_heap =
     \<lparr>layer_at = (\<lambda>l. if l = 0 then demo_layer [] None (Some ''x'')
                       else if l = 1 then demo_layer [(''W1'', {''trainable''})] (Some 0) None
                       else if l = 2 then demo_layer [(''W2'', {''trainable''}), (''b2'', {})] (Some 1) None
                       else if l = 3 then demo_layer [(''W3'', {''trainable''})] (Some 1) None
                       else demo_layer [] None None),
      next_id = 4\<rparr>"

definition demo_all_layers :: all_layers where
  "demo_all_layers h fn =
     (case fn of
        None \<Rightarrow> []
      | Some l \<Rightarrow>
          if l = 1 then [0, 1]
          else if l = 2 then [0, 1, 2]
          else if l = 3 then [0, 1, 3]
          else [l])"

definition demo_args :: pattern_args where
  "demo_args =
     \<lparr>arg_phi = 1, arg_psi = 2, arg_beta = Some 3, arg_target_var = Some ''y'',
      arg_context_var = Some ''xj'', arg_target_loss = None, arg_context_loss = None,
      arg_name = None\<rparr>"

text \<open>
  Two variants of that network. In the first the shared variable \<open>W1\<close> of phi is
  also registered in psi's own layer, with a tag set of its own there, as when a layer
  is built on another layer's weight. In the second the layer of phi already carries
  the tag psi, as after an earlier pattern that used it as its psi.
\<close>

definition demo_heap_shared :: heap where
  "demo_heap_shared =
     \<lparr>layer_at = (\<lambda>l. if l = 0 then demo_layer [] None (Some ''x'')
                       else if l = 1 then demo_layer [(''W1'', {''trainable''})] (Some 0) None
                       else if l = 2 then demo_layer [(''W1'', {''trainable''}), (''W2'', {''trainable''})] (Some 1) None
                       else if l = 3 then demo_layer [(''W3'', {''trainable''})] (Some 1) None
                       else demo_layer [] None None),
      next_id = 4\<rparr>"

definition demo_heap_reused :: heap where
  "demo_heap_reused =
     \<lparr>layer_at = (\<lambda>l. if l = 0 then demo_layer [] None (Some ''x'')
                       else if l = 1 then demo_layer [(''W1'', {''psi'', ''trainable''})] (Some 0) None
                       else if l = 2 then demo_layer [(''W2'', {''trainable''}), (''b2'', {})] (Some 1) None
                       else if l = 3 then demo_layer [(''W3'', {''trainable''})] (Some 1) None
                       else demo_layer [] None None),
      next_id = 4\<rparr>"

text \<open>A pattern object used as a concrete input below.\<close>

definition demo_pattern :: pattern where
  "demo_pattern =
     \<lparr>cls = PairwisePredictTransformationPattern, phi = 1, psi = 2, beta = None,
      input_layer = 0, input_var = Some ''x'', target_var = Some ''y'',
      context_var = Some ''xj'', target_loss = Some (Var ''tl''), target_loss_fn = None,
      context_loss = Some (Var ''cl''), context_loss_fn = None, name = None,
      context_input_layer = None, context_transform_var = Some ''c'',
      context_shape = None\<rparr>"

section \<open>Properties of training\_loss\<close>

lemma py_mul_Some: "py_mul w (Some e) = Inr (Mul (Const w) e)"
  by (simp add: py_mul_def)

lemma py_mul_None: "py_mul w None = Inl TypeError"
  by (simp add: py_mul_def)

lemma training_loss_set:
  assumes "target_loss p = Some tloss" and "context_loss p = Some closs"
  shows "training_loss p tw cw =
           Inr (if tw = 0 then Mul (Const cw) closs
                else if cw = 0 then Mul (Const tw) tloss
                else Add (Mul (Const tw) tloss) (Mul (Const cw) closs))"
  using assms by (simp add: training_loss_def py_mul_Some)

text \<open>
  C1. When both loss slots are set, \<open>training_loss\<close> returns the graph
  \<open>context_weight * context_loss\<close> if the target weight is zero, else
  \<open>target_weight * target_loss\<close> if the context weight is zero, else the sum of the
  two products. Its value is \<open>cw * context_loss\<close> when \<open>tw = 0\<close>, \<open>tw * target_loss\<close>
  when \<open>cw = 0\<close>, and in every case the weighted sum with the weights as given (no
  renormalization): weights (1, 0) give the target loss, (0, 1) the context loss and
  (1/2, 1/2) the unweighted average.
\<close>

theorem training_loss_weighted:
  assumes "target_loss p = Some tloss" and "context_loss p = Some closs"
  shows "training_loss p tw cw =
           Inr (if tw = 0 then Mul (Const cw) closs
                else if cw = 0 then Mul (Const tw) tloss
                else Add (Mul (Const tw) tloss) (Mul (Const cw) closs))
       \<and> (tw = 0 \<longrightarrow>
            graph_value I (training_loss p tw cw) = Some (\<lambda>i. cw * denote I closs i))
       \<and> (cw = 0 \<longrightarrow>
            graph_value I (training_loss p tw cw) = Some (\<lambda>i. tw * denote I tloss i))
       \<and> graph_value I (training_loss p tw cw) =
            Some (\<lambda>i. tw * denote I tloss i + cw * denote I closs i)
       \<and> graph_value I (training_loss p 1 0) = Some (denote I tloss)
       \<and> graph_value I (training_loss p 0 1) = Some (denote I closs)
       \<and> graph_value I (training_loss p (1/2) (1/2)) =
            Some (\<lambda>i. (denote I tloss i + denote I closs i) / 2)"
proof -
  note r = training_loss_set [OF assms]
  have shape: "training_loss p tw cw =
           Inr (if tw = 0 then Mul (Const cw) closs
                else if cw = 0 then Mul (Const tw) tloss
                else Add (Mul (Const tw) tloss) (Mul (Const cw) closs))"
    by (rule r)
  have z1: "tw = 0 \<longrightarrow>
      graph_value I (training_loss p tw cw) = Some (\<lambda>i. cw * denote I closs i)"
    by (simp add: r graph_value_def)
  have z2: "cw = 0 \<longrightarrow>
      graph_value I (training_loss p tw cw) = Some (\<lambda>i. tw * denote I tloss i)"
    by (simp add: r graph_value_def)
  have sum: "graph_value I (training_loss p tw cw) =
      Some (\<lambda>i. tw * denote I tloss i + cw * denote I closs i)"
    by (simp add: r graph_value_def)
  have a: "graph_value I (training_loss p 1 0) = Some (denote I tloss)"
    by (simp add: r graph_value_def)
  have b: "graph_value I (training_loss p 0 1) = Some (denote I closs)"
    by (simp add: r graph_value_def)
  have c: "graph_value I (training_loss p (1/2) (1/2)) =
      Some (\<lambda>i. (denote I tloss i + denote I closs i) / 2)"
    by (simp add: r graph_value_def add_divide_distrib)
  from shape z1 z2 sum a b c show ?thesis by blast
qed

theorem training_loss_weighted_witness:
  "training_loss demo_pattern 2 3 =
     Inr (Add (Mul (Const 2) (Var ''tl'')) (Mul (Const 3) (Var ''cl'')))
   \<and> training_loss demo_pattern 0 3 = Inr (Mul (Const 3) (Var ''cl''))
   \<and> training_loss demo_pattern 2 0 = Inr (Mul (Const 2) (Var ''tl''))"
  using training_loss_weighted [of demo_pattern "Var ''tl''" "Var ''cl''" 2 3]
    training_loss_weighted [of demo_pattern "Var ''tl''" "Var ''cl''" 0 3]
    training_loss_weighted [of demo_pattern "Var ''tl''" "Var ''cl''" 2 0]
  by (simp add: demo_pattern_def)

text \<open>
  C8, as the code has it. \<open>training_loss\<close> returns exactly when the losses its branch
  reads exist: the context loss when the target weight is zero (the target loss may
  then be absent, also when the context weight is zero as well), the target loss when
  only the context weight is zero (the context loss may then be absent), and both
  when neither weight is zero. Every failure is the TypeError of a product with
  \<^verbatim>\<open>None\<close>.
\<close>

theorem training_loss_requirements:
  "(\<not> isl (training_loss p tw cw)) =
     (if tw = 0 then context_loss p \<noteq> None
      else if cw = 0 then target_loss p \<noteq> None
      else target_loss p \<noteq> None \<and> context_loss p \<noteq> None)
   \<and> (isl (training_loss p tw cw) \<longrightarrow> training_loss p tw cw = Inl TypeError)"
  by (cases "target_loss p"; cases "context_loss p")
     (simp_all add: training_loss_def py_mul_def)

theorem training_loss_requirements_witness:
  "\<not> isl (training_loss (demo_pattern\<lparr>target_loss := None\<rparr>) 0 3)
   \<and> \<not> isl (training_loss (demo_pattern\<lparr>context_loss := None\<rparr>) 2 0)
   \<and> training_loss (demo_pattern\<lparr>target_loss := None\<rparr>) 2 3 = Inl TypeError"
  using training_loss_requirements [of "demo_pattern\<lparr>target_loss := None\<rparr>" 0 3]
    training_loss_requirements [of "demo_pattern\<lparr>context_loss := None\<rparr>" 2 0]
    training_loss_requirements [of "demo_pattern\<lparr>target_loss := None\<rparr>" 2 3]
  by (simp add: demo_pattern_def)

text \<open>
  With both weights zero the first branch is taken and the context loss is read: a
  pattern whose context loss is absent fails there, although the weight of the context
  loss is zero and the target loss exists.
\<close>

theorem training_loss_both_zero_counterexample:
  "target_loss (demo_pattern\<lparr>context_loss := None\<rparr>) = Some (Var ''tl'')
   \<and> context_loss (demo_pattern\<lparr>context_loss := None\<rparr>) = None
   \<and> training_loss (demo_pattern\<lparr>context_loss := None\<rparr>) 0 0 = Inl TypeError"
  by (simp add: demo_pattern_def training_loss_def py_mul_def)

section \<open>Properties of get\_params\<close>






section \<open>Properties of the outputs and the abstract operations\<close>

text \<open>
  C6. On a predicting pairwise pattern, \<open>get_beta_output_for\<close> of two inputs returns
  the difference of phi's outputs on them when there is no beta network, and beta
  applied to that difference when there is one. The value of the graph without beta is
  the elementwise difference of the values of phi's two outputs.
\<close>

theorem predict_get_beta_output_for:
  assumes "cls p = PairwisePredictTransformationPattern"
  shows "get_beta_output_for p [x_i, x_j] =
           Inr (case beta p of
                  None \<Rightarrow> Sub (LayerOut (phi p) x_i) (LayerOut (phi p) x_j)
                | Some b \<Rightarrow> LayerOut b (Sub (LayerOut (phi p) x_i) (LayerOut (phi p) x_j)))
       \<and> (beta p = None \<longrightarrow>
            graph_value I (get_beta_output_for p [x_i, x_j]) =
              Some (\<lambda>i. layer_fwd I (phi p) (denote I x_i) i
                         - layer_fwd I (phi p) (denote I x_j) i))
       \<and> (\<forall>b. beta p = Some b \<longrightarrow>
            graph_value I (get_beta_output_for p [x_i, x_j]) =
              Some (layer_fwd I b (\<lambda>i. layer_fwd I (phi p) (denote I x_i) i
                                        - layer_fwd I (phi p) (denote I x_j) i)))"
  using assms
  by (simp add: get_beta_output_for_def graph_value_def Let_def split: option.split)

theorem predict_get_beta_output_for_witness:
  "get_beta_output_for demo_pattern [Var ''x'', Var ''xj''] =
     Inr (Sub (LayerOut 1 (Var ''x'')) (LayerOut 1 (Var ''xj'')))
   \<and> get_beta_output_for (demo_pattern\<lparr>beta := Some 3\<rparr>) [Var ''x'', Var ''xj''] =
     Inr (LayerOut 3 (Sub (LayerOut 1 (Var ''x'')) (LayerOut 1 (Var ''xj''))))"
  using predict_get_beta_output_for [of demo_pattern "Var ''x''" "Var ''xj''"]
    predict_get_beta_output_for [of "demo_pattern\<lparr>beta := Some 3\<rparr>" "Var ''x''" "Var ''xj''"]
  by (simp add: demo_pattern_def)

text \<open>
  C10, evaluated on the code. On an object of the base class the two objective
  properties fail with TypeError, raised by the call \<^verbatim>\<open>NotImplemented()\<close>, and
  \<open>get_beta_output_for\<close> fails with NotImplementedError.
\<close>

theorem base_abstract_operations:
  assumes "cls p = Pattern"
  shows "default_target_objective p = Inl TypeError
       \<and> default_context_objective p = Inl TypeError
       \<and> get_beta_output_for p [x] = Inl NotImplementedError"
  using assms
  by (simp add: default_target_objective_def default_context_objective_def
      get_beta_output_for_def)

theorem base_abstract_operations_witness:
  "default_target_objective (demo_pattern\<lparr>cls := Pattern\<rparr>) = Inl TypeError
   \<and> default_context_objective (demo_pattern\<lparr>cls := Pattern\<rparr>) = Inl TypeError
   \<and> get_beta_output_for (demo_pattern\<lparr>cls := Pattern\<rparr>) [Var ''x''] = Inl NotImplementedError"
  using base_abstract_operations [of "demo_pattern\<lparr>cls := Pattern\<rparr>" "Var ''x''"]
  by simp

section \<open>Properties of the constructors\<close>

lemma split_loss_cases:
  "split_loss None = (None, None)"
  "split_loss (Some (LossExpr e)) = (Some e, None)"
  "split_loss (Some (LossFn f)) = (None, Some f)"
  by (simp_all add: split_loss_def isfunction_def)

lemma Pattern_init_InrD:
  assumes "Pattern_init g c a h = Inr (p, h')"
  shows "cls p = c" and "phi p = arg_phi a" and "psi p = arg_psi a" and "beta p = arg_beta a"
    and "target_loss p = fst (split_loss (arg_target_loss a))"
    and "target_loss_fn p = snd (split_loss (arg_target_loss a))"
    and "context_loss p = fst (split_loss (arg_context_loss a))"
    and "context_loss_fn p = snd (split_loss (arg_context_loss a))"
    and "context_input_layer p = None" and "context_shape p = None"
    and "input_var p \<noteq> None"
    and "target_var p = arg_target_var a" and "context_var p = arg_context_var a"
  using assms
  by (auto simp add: Pattern_init_def split: option.splits)

text \<open>
  C4, as the code has it. After the base constructor the target slots follow the
  argument: no argument leaves both slots null; an expression is held by
  \<open>target_loss\<close> with \<open>target_loss_fn\<close> null; a callable is held by \<open>target_loss_fn\<close>
  with \<open>target_loss\<close> null. At most one of the two slots is non-null.
\<close>

theorem Pattern_init_loss_slots:
  assumes "Pattern_init g c a h = Inr (p, h')"
  shows "(arg_target_loss a = None \<longrightarrow> target_loss p = None \<and> target_loss_fn p = None)
       \<and> (\<forall>e. arg_target_loss a = Some (LossExpr e) \<longrightarrow>
             target_loss p = Some e \<and> target_loss_fn p = None)
       \<and> (\<forall>f. arg_target_loss a = Some (LossFn f) \<longrightarrow>
             target_loss p = None \<and> target_loss_fn p = Some f)
       \<and> (target_loss p = None \<or> target_loss_fn p = None)"
proof -
  note s = Pattern_init_InrD(5,6) [OF assms]
  show ?thesis
  proof (cases "arg_target_loss a")
    case None
    then show ?thesis using s by (simp add: split_loss_cases)
  next
    case (Some x)
    then show ?thesis using s by (cases x) (simp_all add: split_loss_cases)
  qed
qed


lemma Inr_projr: "\<not> isl r \<Longrightarrow> r = Inr (fst (projr r), snd (projr r))"
  by (cases r) simp_all

lemma demo_heap_init:
  "arg_phi a = 1 \<Longrightarrow> \<not> isl (Pattern_init g c a demo_heap)"
  by (simp add: Pattern_init_def demo_heap_def demo_layer_def)

theorem Pattern_init_loss_slots_witness:
  "target_loss (fst (projr (Pattern_init demo_all_layers Pattern
      (demo_args\<lparr>arg_target_loss := Some (LossFn squared_error)\<rparr>) demo_heap))) = None
   \<and> target_loss_fn (fst (projr (Pattern_init demo_all_layers Pattern
      (demo_args\<lparr>arg_target_loss := Some (LossFn squared_error)\<rparr>) demo_heap)))
      = Some squared_error"
proof -
  let ?a = "demo_args\<lparr>arg_target_loss := Some (LossFn squared_error)\<rparr>"
  let ?r = "Pattern_init demo_all_layers Pattern ?a demo_heap"
  have "\<not> isl ?r" by (rule demo_heap_init) (simp add: demo_args_def)
  then have "?r = Inr (fst (projr ?r), snd (projr ?r))" by (rule Inr_projr)
  from Pattern_init_loss_slots [OF this] show ?thesis by simp
qed

text \<open>
  A pattern constructed without a \<^verbatim>\<open>target_loss\<close> argument has both slots null.
\<close>

theorem Pattern_init_no_loss_counterexample:
  "\<not> isl (Pattern_init demo_all_layers Pattern demo_args demo_heap)
   \<and> target_loss (fst (projr (Pattern_init demo_all_layers Pattern demo_args demo_heap))) = None
   \<and> target_loss_fn (fst (projr (Pattern_init demo_all_layers Pattern demo_args demo_heap)))
       = None"
proof -
  let ?r = "Pattern_init demo_all_layers Pattern demo_args demo_heap"
  have ok: "\<not> isl ?r" by (rule demo_heap_init) (simp add: demo_args_def)
  then have eq: "?r = Inr (fst (projr ?r), snd (projr ?r))" by (rule Inr_projr)
  have "target_loss (fst (projr ?r)) = None"
    using Pattern_init_InrD(5) [OF eq] by (simp add: demo_args_def split_loss_cases)
  moreover have "target_loss_fn (fst (projr ?r)) = None"
    using Pattern_init_InrD(6) [OF eq] by (simp add: demo_args_def split_loss_cases)
  ultimately show ?thesis using ok by simp
qed

section \<open>Properties of the loss builders\<close>

lemma create_target_objective_set:
  assumes "target_loss q = Some e" and "output \<noteq> None \<or> input_var q \<noteq> None"
  shows "create_target_objective q output target = Inr q"
  using assms by (auto simp add: create_target_objective_def split: option.splits)

text \<open>
  C5, as the code has it. On a pattern with \<open>input_var\<close> and \<open>target_var\<close> set, a null
  \<open>target_loss\<close>, and a loss function \<open>fn\<close> that is the supplied one or, when none
  was supplied, the default objective the class of the pattern provides, the first call
  of the builder stores \<open>Mean (Loss fn output target)\<close> in \<open>target_loss\<close>, and any
  further call returns the pattern unchanged.
\<close>

theorem create_target_objective_once:
  assumes "input_var p = Some iv" and "target_var p = Some tv" and "target_loss p = None"
    and "target_loss_fn p = Some fn
         \<or> (target_loss_fn p = None \<and> default_target_objective p = Inr fn)"
  shows "create_target_objective p output target =
           Inr (p\<lparr>target_loss := Some (Mean (Loss fn
                  (case output of None \<Rightarrow> get_psi_output_for p (Var iv) | Some out \<Rightarrow> out)
                  (case target of None \<Rightarrow> Var tv | Some t \<Rightarrow> t)))\<rparr>)
       \<and> create_target_objective
           (p\<lparr>target_loss := Some (Mean (Loss fn
                  (case output of None \<Rightarrow> get_psi_output_for p (Var iv) | Some out \<Rightarrow> out)
                  (case target of None \<Rightarrow> Var tv | Some t \<Rightarrow> t)))\<rparr>) output' target' =
           Inr (p\<lparr>target_loss := Some (Mean (Loss fn
                  (case output of None \<Rightarrow> get_psi_output_for p (Var iv) | Some out \<Rightarrow> out)
                  (case target of None \<Rightarrow> Var tv | Some t \<Rightarrow> t)))\<rparr>)"
proof -
  let ?q = "p\<lparr>target_loss := Some (Mean (Loss fn
                  (case output of None \<Rightarrow> get_psi_output_for p (Var iv) | Some out \<Rightarrow> out)
                  (case target of None \<Rightarrow> Var tv | Some t \<Rightarrow> t)))\<rparr>"
  have first: "create_target_objective p output target = Inr ?q"
    using assms by (auto simp add: create_target_objective_def split: option.splits)
  have "input_var ?q \<noteq> None" using assms(1) by simp
  then have second: "create_target_objective ?q output' target' = Inr ?q"
    by (intro create_target_objective_set [where e = "Mean (Loss fn
                  (case output of None \<Rightarrow> get_psi_output_for p (Var iv) | Some out \<Rightarrow> out)
                  (case target of None \<Rightarrow> Var tv | Some t \<Rightarrow> t))"]) simp_all
  from first second show ?thesis by simp
qed

theorem create_target_objective_once_witness:
  "create_target_objective (demo_pattern\<lparr>target_loss := None\<rparr>) None None =
     Inr (demo_pattern\<lparr>target_loss :=
       Some (Mean (Loss categorical_crossentropy (LayerOut 2 (LayerOut 1 (Var ''x''))) (Var ''y'')))\<rparr>)
   \<and> create_target_objective (demo_pattern\<lparr>target_loss :=
       Some (Mean (Loss categorical_crossentropy (LayerOut 2 (LayerOut 1 (Var ''x''))) (Var ''y'')))\<rparr>)
       None None =
     Inr (demo_pattern\<lparr>target_loss :=
       Some (Mean (Loss categorical_crossentropy (LayerOut 2 (LayerOut 1 (Var ''x''))) (Var ''y'')))\<rparr>)"
  using create_target_objective_once [of "demo_pattern\<lparr>target_loss := None\<rparr>" "''x''" "''y''"
      categorical_crossentropy None None None None]
  by (simp add: demo_pattern_def default_target_objective_def get_psi_output_for_def)

text \<open>
  An object of the base class with both variables set and no loss function: the
  builder reads the default objective of the base class and fails.
\<close>

theorem create_target_objective_base_counterexample:
  "input_var (demo_pattern\<lparr>cls := Pattern, target_loss := None\<rparr>) = Some ''x''
   \<and> target_var (demo_pattern\<lparr>cls := Pattern, target_loss := None\<rparr>) = Some ''y''
   \<and> target_loss (demo_pattern\<lparr>cls := Pattern, target_loss := None\<rparr>) = None
   \<and> create_target_objective (demo_pattern\<lparr>cls := Pattern, target_loss := None\<rparr>) None None
       = Inl TypeError"
  by (simp add: demo_pattern_def create_target_objective_def default_target_objective_def)

section \<open>Properties of the pairwise constructors\<close>

text \<open>Without a transform variable the pairwise constructor never returns an object.\<close>

lemma pairwise_init_None_fails:
  "isl (PairwiseTransformationPattern_init g c None a h)"
  by (simp add: PairwiseTransformationPattern_init_def Let_def split: sum.split)

text \<open>
  C7. When the base constructor succeeds, constructing a pairwise pattern without
  \<^verbatim>\<open>context_transform_var\<close> fails with AssertionError, and the object at that moment
  is the one the base constructor left: its loss slots hold what the arguments gave
  (null unless the caller passed an expression), so neither loss builder has run. The
  predicting pattern inherits this constructor and fails in the same way.
\<close>

theorem pairwise_init_asserts_transform:
  assumes "Pattern_init g c a h = Inr (p0, h')"
  shows "PairwiseTransformationPattern_init g c None a h =
           Inl (AssertionError, Some (p0\<lparr>context_transform_var := None\<rparr>, h'))
       \<and> target_loss (p0\<lparr>context_transform_var := None\<rparr>) = fst (split_loss (arg_target_loss a))
       \<and> context_loss (p0\<lparr>context_transform_var := None\<rparr>) = fst (split_loss (arg_context_loss a))
       \<and> (c = PairwisePredictTransformationPattern \<longrightarrow>
            PairwisePredictTransformationPattern_init g None a h =
              Inl (AssertionError, Some (p0\<lparr>context_transform_var := None\<rparr>, h')))"
proof -
  have fail: "PairwiseTransformationPattern_init g c None a h =
      Inl (AssertionError, Some (p0\<lparr>context_transform_var := None\<rparr>, h'))"
    using assms by (simp add: PairwiseTransformationPattern_init_def Let_def)
  have t: "target_loss (p0\<lparr>context_transform_var := None\<rparr>) = fst (split_loss (arg_target_loss a))"
    using Pattern_init_InrD(5) [OF assms] by simp
  have cx: "context_loss (p0\<lparr>context_transform_var := None\<rparr>) = fst (split_loss (arg_context_loss a))"
    using Pattern_init_InrD(7) [OF assms] by simp
  from fail t cx show ?thesis
    by (auto simp add: PairwisePredictTransformationPattern_init_def)
qed

theorem pairwise_init_asserts_transform_witness:
  "PairwiseTransformationPattern_init demo_all_layers PairwiseTransformationPattern None
      demo_args demo_heap =
     Inl (AssertionError,
          Some ((fst (projr (Pattern_init demo_all_layers PairwiseTransformationPattern
                   demo_args demo_heap)))\<lparr>context_transform_var := None\<rparr>,
                snd (projr (Pattern_init demo_all_layers PairwiseTransformationPattern
                   demo_args demo_heap))))
   \<and> target_loss ((fst (projr (Pattern_init demo_all_layers PairwiseTransformationPattern
                   demo_args demo_heap)))\<lparr>context_transform_var := None\<rparr>) = None
   \<and> context_loss ((fst (projr (Pattern_init demo_all_layers PairwiseTransformationPattern
                   demo_args demo_heap)))\<lparr>context_transform_var := None\<rparr>) = None"
proof -
  let ?r = "Pattern_init demo_all_layers PairwiseTransformationPattern demo_args demo_heap"
  have "\<not> isl ?r" by (rule demo_heap_init) (simp add: demo_args_def)
  then have "?r = Inr (fst (projr ?r), snd (projr ?r))" by (rule Inr_projr)
  from pairwise_init_asserts_transform [OF this] show ?thesis
    by (simp add: demo_args_def split_loss_cases)
qed

section \<open>Properties of default\_beta\_input\<close>

lemma create_target_objective_fields:
  assumes "create_target_objective p output target = Inr q"
  shows "context_input_layer q = context_input_layer p" and "context_shape q = context_shape p"
  using assms
  by (auto simp add: create_target_objective_def split: option.splits sum.splits if_splits)

lemma create_context_objective_fields:
  assumes "create_context_objective p = Inr q"
  shows "context_input_layer q = context_input_layer p" and "context_shape q = context_shape p"
  using assms
  by (auto simp add: create_context_objective_def split: option.splits sum.splits if_splits)

lemma pairwise_init_fields:
  assumes "PairwiseTransformationPattern_init g c ctv a h = Inr (p, h')"
  shows "context_input_layer p = None" and "context_shape p = None"
proof -
  from assms obtain p0 h0 where b: "Pattern_init g c a h = Inr (p0, h0)"
    by (cases "Pattern_init g c a h")
       (auto simp add: PairwiseTransformationPattern_init_def)
  let ?s = "p0\<lparr>context_transform_var := ctv\<rparr>"
  from assms b obtain s1 where
    t: "create_target_objective ?s None None = Inr s1" and
    cx: "create_context_objective s1 = Inr p"
    by (auto simp add: PairwiseTransformationPattern_init_def Let_def
        split: if_splits sum.splits)
  have "context_input_layer ?s = None" "context_shape ?s = None"
    using Pattern_init_InrD(9,10) [OF b] by simp_all
  then show "context_input_layer p = None" and "context_shape p = None"
    using create_target_objective_fields [OF t] create_context_objective_fields [OF cx]
    by simp_all
qed

text \<open>
  C9, evaluated on the code. A predicting pairwise pattern that its constructor
  returned has no cached input layer and no attribute \<^verbatim>\<open>context_shape\<close>, so the
  first read of \<open>default_beta_input\<close> fails with AttributeError, in any heap: no input
  layer is constructed or cached.
\<close>

theorem default_beta_input_after_init:
  assumes "PairwisePredictTransformationPattern_init g ctv a h = Inr (p, h')"
  shows "context_input_layer p = None \<and> context_shape p = None
       \<and> default_beta_input p h'' = Inl AttributeError"
proof -
  from assms have "PairwiseTransformationPattern_init g
      PairwisePredictTransformationPattern ctv a h = Inr (p, h')"
    by (simp add: PairwisePredictTransformationPattern_init_def)
  from pairwise_init_fields [OF this] show ?thesis
    by (simp add: default_beta_input_def)
qed

lemma demo_predict_init:
  "\<not> isl (PairwisePredictTransformationPattern_init demo_all_layers (Some ''c'')
       demo_args demo_heap)"
  by (simp add: PairwisePredictTransformationPattern_init_def
      PairwiseTransformationPattern_init_def Pattern_init_def demo_args_def demo_heap_def
      demo_layer_def Let_def create_target_objective_def create_context_objective_def
      default_target_objective_def default_context_objective_def get_beta_output_for_def
      split_loss_cases)

theorem default_beta_input_after_init_witness:
  "default_beta_input
     (fst (projr (PairwisePredictTransformationPattern_init demo_all_layers (Some ''c'')
        demo_args demo_heap)))
     (snd (projr (PairwisePredictTransformationPattern_init demo_all_layers (Some ''c'')
        demo_args demo_heap)))
   = Inl AttributeError"
proof -
  let ?r = "PairwisePredictTransformationPattern_init demo_all_layers (Some ''c'')
        demo_args demo_heap"
  have "?r = Inr (fst (projr ?r), snd (projr ?r))"
    using demo_predict_init by (rule Inr_projr)
  from default_beta_input_after_init [OF this] show ?thesis by simp
qed

text \<open>
  When the attribute \<^verbatim>\<open>context_shape\<close> has been set on the object from outside, the
  first read allocates one input layer and caches it, and a later read returns the
  cached layer without touching the heap.
\<close>

lemma default_beta_input_cached:
  assumes "context_input_layer p = None" and "context_shape p = Some sh"
  shows "default_beta_input p h =
           Inr (next_id h, p\<lparr>context_input_layer := Some (next_id h)\<rparr>,
                snd (new_input_layer h
                  (case sh of IntShape d \<Rightarrow> TupleShape [None, Some d] | TupleShape ds \<Rightarrow> sh)
                  (context_var p)))"
    and "default_beta_input (p\<lparr>context_input_layer := Some (next_id h)\<rparr>) h2 =
           Inr (next_id h, p\<lparr>context_input_layer := Some (next_id h)\<rparr>, h2)"
  using assms by (simp_all add: default_beta_input_def new_input_layer_def Let_def)

section \<open>Properties of the tagging pass\<close>

lemma tag_entry_idem: "tag_entry n (tag_entry n e) = tag_entry n e"
  by (auto simp add: tag_entry_def)

lemma tag_entry_phi: "tag_entry ''phi'' e = (fst e, insert ''phi'' (snd e))"
  by (simp add: tag_entry_def)

lemma tag_entry_skip: "n \<noteq> ''phi'' \<Longrightarrow> ''phi'' \<in> snd e \<Longrightarrow> tag_entry n e = e"
  by (simp add: tag_entry_def)

lemma params_tag_layer:
  "params (layer_at (tag_layer n h x) l) =
     (if l = x then map (tag_entry n) (params (layer_at h l)) else params (layer_at h l))"
  by (simp add: tag_layer_def)

lemma params_foldl_tag_layer:
  "params (layer_at (foldl (tag_layer n) h ls) l) =
     (if l \<in> set ls then map (tag_entry n) (params (layer_at h l))
      else params (layer_at h l))"
proof (induction ls arbitrary: h)
  case Nil
  then show ?case by simp
next
  case (Cons x xs)
  show ?case
    by (simp add: Cons.IH params_tag_layer tag_entry_idem)
qed

lemma params_tag_function_parameters:
  "params (layer_at (tag_function_parameters g h fn n) l) =
     (if l \<in> set (g h fn) then map (tag_entry n) (params (layer_at h l))
      else params (layer_at h l))"
  by (simp add: tag_function_parameters_def params_foldl_tag_layer)

lemma tag_other_role_keeps_phi:
  assumes "n \<noteq> ''phi''" and "\<forall>e \<in> set (params (layer_at h l)). ''phi'' \<in> snd e"
  shows "params (layer_at (tag_function_parameters g h fn n) l) = params (layer_at h l)"
proof -
  have "map (tag_entry n) (params (layer_at h l)) = params (layer_at h l)"
    using assms by (simp add: map_idI tag_entry_skip)
  then show ?thesis by (simp add: params_tag_function_parameters)
qed

lemma Pattern_init_heap:
  assumes "Pattern_init g c a h = Inr (p, h')"
  shows "h' = tag_function_parameters g
           (tag_function_parameters g
              (tag_function_parameters g h (Some (arg_phi a)) ''phi'')
              (Some (arg_psi a)) ''psi'')
           (arg_beta a) ''beta''"
  using assms by (auto simp add: Pattern_init_def split: option.splits)

text \<open>
  C3, as the code has it. After the construction of a pattern, every entry
  \<^verbatim>\<open>l.params[p]\<close> of every layer \<open>l\<close> that \<^verbatim>\<open>get_all_layers(phi)\<close> lists carries
  the tag phi, and its tag set is the one it had before the construction with phi
  added: the passes for psi and beta skip it, whether or not its layer is also among
  the layers of psi or of beta. So such an entry carries psi or beta afterwards only
  if it carried it before the construction. The test is made on the tag set of the
  layer's own entry, so nothing is said about an entry of the same parameter in a
  layer outside the layers of phi.
\<close>

theorem phi_layer_entries_gain_only_phi:
  assumes "Pattern_init g c a h = Inr (p, h')" and "l \<in> set (g h (Some (arg_phi a)))"
  shows "params (layer_at h' l) =
           map (\<lambda>e. (fst e, insert ''phi'' (snd e))) (params (layer_at h l))
       \<and> (\<forall>e \<in> set (params (layer_at h' l)). ''phi'' \<in> snd e)
       \<and> ((\<forall>e \<in> set (params (layer_at h l)). ''psi'' \<notin> snd e \<and> ''beta'' \<notin> snd e)
            \<longrightarrow> (\<forall>e \<in> set (params (layer_at h' l)). ''psi'' \<notin> snd e \<and> ''beta'' \<notin> snd e))"
proof -
  let ?h1 = "tag_function_parameters g h (Some (arg_phi a)) ''phi''"
  let ?h2 = "tag_function_parameters g ?h1 (Some (arg_psi a)) ''psi''"
  let ?tagged = "map (\<lambda>e. (fst e, insert ''phi'' (snd e))) (params (layer_at h l))"
  have p1: "params (layer_at ?h1 l) = ?tagged"
    using assms(2) by (simp add: params_tag_function_parameters tag_entry_phi)
  then have all1: "\<forall>e \<in> set (params (layer_at ?h1 l)). ''phi'' \<in> snd e"
    by simp
  have p2: "params (layer_at ?h2 l) = ?tagged"
    using tag_other_role_keeps_phi [OF _ all1, of "''psi''"] p1 by simp
  then have all2: "\<forall>e \<in> set (params (layer_at ?h2 l)). ''phi'' \<in> snd e"
    by simp
  have "params (layer_at (tag_function_parameters g ?h2 (arg_beta a) ''beta'') l) = ?tagged"
    using tag_other_role_keeps_phi [OF _ all2, of "''beta''"] p2 by simp
  then have eq: "params (layer_at h' l) = ?tagged"
    using Pattern_init_heap [OF assms(1)] by simp
  show ?thesis
    unfolding eq by auto
qed

theorem phi_layer_entries_gain_only_phi_witness:
  "params (layer_at (snd (projr (Pattern_init demo_all_layers Pattern demo_args demo_heap))) 1)
     = [(''W1'', {''phi'', ''trainable''})]"
proof -
  let ?r = "Pattern_init demo_all_layers Pattern demo_args demo_heap"
  have "\<not> isl ?r" by (rule demo_heap_init) (simp add: demo_args_def)
  then have eq: "?r = Inr (fst (projr ?r), snd (projr ?r))" by (rule Inr_projr)
  have "1 \<in> set (demo_all_layers demo_heap (Some (arg_phi demo_args)))"
    by (simp add: demo_all_layers_def demo_args_def)
  from phi_layer_entries_gain_only_phi [OF eq this] show ?thesis
    by (simp add: demo_heap_def demo_layer_def)
qed

text \<open>
  Two constructions after which a parameter of phi carries the tag psi. On the first
  heap, with fresh layers, \<open>W1\<close> belongs to the layer of phi and is also registered
  in psi's own layer: its entry there carries no phi tag, is tagged psi, and
  \<open>get_params\<close> returns \<open>W1\<close> for the tag psi. On the second heap the entry of
  \<open>W1\<close> in the layer of phi carried psi before the construction and carries both phi
  and psi after it.
\<close>

theorem phi_parameter_tagged_psi_counterexample:
  "\<not> isl (Pattern_init demo_all_layers Pattern demo_args demo_heap_shared)
   \<and> 1 \<in> set (demo_all_layers demo_heap_shared (Some (arg_phi demo_args)))
   \<and> params (layer_at demo_heap_shared 1) = [(''W1'', {''trainable''})]
   \<and> params (layer_at (snd (projr (Pattern_init demo_all_layers Pattern demo_args
        demo_heap_shared))) 1) = [(''W1'', {''phi'', ''trainable''})]
   \<and> params (layer_at (snd (projr (Pattern_init demo_all_layers Pattern demo_args
        demo_heap_shared))) 2)
       = [(''W1'', {''psi'', ''trainable''}), (''W2'', {''psi'', ''trainable''})]
   \<and> get_params (snd (projr (Pattern_init demo_all_layers Pattern demo_args demo_heap_shared)))
        (fst (projr (Pattern_init demo_all_layers Pattern demo_args demo_heap_shared)))
        [(''psi'', True)] = [''W1'', ''W2'']
   \<and> \<not> isl (Pattern_init demo_all_layers Pattern demo_args demo_heap_reused)
   \<and> 1 \<in> set (demo_all_layers demo_heap_reused (Some (arg_phi demo_args)))
   \<and> params (layer_at (snd (projr (Pattern_init demo_all_layers Pattern demo_args
        demo_heap_reused))) 1) = [(''W1'', {''phi'', ''psi'', ''trainable''})]"
  by (simp add: Pattern_init_def demo_args_def demo_heap_shared_def demo_heap_reused_def
      demo_layer_def demo_all_layers_def tag_function_parameters_def tag_layer_def
      tag_entry_def get_params_def layer_get_params_def tag_match_def)

end
